theory Spec2Isabelle
  imports Main
begin

section \<open>Strings\<close>

text \<open>
  A Go string is a sequence of bytes: a list of 8-bit characters. \<open>ToLower\<close> and
  \<open>TrimSpace\<close> are the functions of the Go package \<^verbatim>\<open>strings\<close> on the ASCII
  letters and spaces. Where the code reads a string rune by rune (the \<^verbatim>\<open>regexp\<close>
  package does), the bytes are decoded as UTF-8 by \<open>DecodeRuneInString\<close>.
\<close>

definition upperLetters :: string where
  "upperLetters = ''ABCDEFGHIJKLMNOPQRSTUVWXYZ''"

definition lowerLetters :: string where
  "lowerLetters = ''abcdefghijklmnopqrstuvwxyz''"

definition lowerChar :: "char \<Rightarrow> char" where
  "lowerChar c = (case map_of (zip upperLetters lowerLetters) c of None \<Rightarrow> c | Some l \<Rightarrow> l)"

definition ToLower :: "string \<Rightarrow> string" where
  "ToLower s = map lowerChar s"

definition isSpace :: "char \<Rightarrow> bool" where
  "isSpace c = (c \<in> set [CHR '' '', CHR 0x09, CHR 0x0A, CHR 0x0B, CHR 0x0C, CHR 0x0D])"

definition TrimSpace :: "string \<Rightarrow> string" where
  "TrimSpace s = rev (dropWhile isSpace (rev (dropWhile isSpace s)))"

definition HasPrefix :: "string \<Rightarrow> string \<Rightarrow> bool" where
  "HasPrefix s p = (take (length p) s = p)"

definition TrimPrefix :: "string \<Rightarrow> string \<Rightarrow> string" where
  "TrimPrefix s p = (if HasPrefix s p then drop (length p) s else s)"

text \<open>\<^verbatim>\<open>strings.FieldsFunc\<close>: the maximal runs of characters that are not separators.\<close>

fun fieldsAcc :: "(char \<Rightarrow> bool) \<Rightarrow> string \<Rightarrow> string \<Rightarrow> string list" where
  "fieldsAcc f cur [] = (if cur = [] then [] else [cur])"
| "fieldsAcc f cur (c # cs) =
     (if f c then (if cur = [] then fieldsAcc f [] cs else cur # fieldsAcc f [] cs)
      else fieldsAcc f (cur @ [c]) cs)"

definition FieldsFunc :: "string \<Rightarrow> (char \<Rightarrow> bool) \<Rightarrow> string list" where
  "FieldsFunc s f = fieldsAcc f [] s"

subsection \<open>UTF-8\<close>

definition runeError :: nat where
  "runeError = 65533"

definition byte :: "char \<Rightarrow> nat" where
  "byte c = of_char c"

definition acceptLo :: "nat \<Rightarrow> nat" where
  "acceptLo b0 = (if b0 = 0xE0 then 0xA0 else if b0 = 0xF0 then 0x90 else 0x80)"

definition acceptHi :: "nat \<Rightarrow> nat" where
  "acceptHi b0 = (if b0 = 0xED then 0x9F else if b0 = 0xF4 then 0x8F else 0xBF)"

definition contByte :: "nat \<Rightarrow> bool" where
  "contByte b = (0x80 \<le> b \<and> b \<le> 0xBF)"

text \<open>
  \<^verbatim>\<open>utf8.DecodeRuneInString\<close>: the rune at the head of the string and its width in
  bytes. A byte that does not start a well-formed sequence is the rune \<open>runeError\<close>
  (U+FFFD) of width 1. The second byte of a sequence is checked against the range its
  first byte accepts, the later ones against the continuation range.
\<close>

fun DecodeRuneInString :: "string \<Rightarrow> nat \<times> nat" where
  "DecodeRuneInString [] = (runeError, 0)"
| "DecodeRuneInString (c0 # rest) =
     (let s0 = byte c0
      in if s0 < 0x80 then (s0, 1)
         else if s0 < 0xC2 \<or> 0xF4 < s0 then (runeError, 1)
         else if s0 < 0xE0 then
           (case rest of
              c1 # r1 \<Rightarrow>
                if byte c1 < acceptLo s0 \<or> acceptHi s0 < byte c1 then (runeError, 1)
                else ((s0 mod 32) * 64 + byte c1 mod 64, 2)
            | [] \<Rightarrow> (runeError, 1))
         else if s0 < 0xF0 then
           (case rest of
              c1 # c2 # r2 \<Rightarrow>
                if byte c1 < acceptLo s0 \<or> acceptHi s0 < byte c1 then (runeError, 1)
                else if \<not> contByte (byte c2) then (runeError, 1)
                else ((s0 mod 16) * 4096 + (byte c1 mod 64) * 64 + byte c2 mod 64, 3)
            | _ \<Rightarrow> (runeError, 1))
         else
           (case rest of
              c1 # c2 # c3 # r3 \<Rightarrow>
                if byte c1 < acceptLo s0 \<or> acceptHi s0 < byte c1 then (runeError, 1)
                else if \<not> contByte (byte c2) then (runeError, 1)
                else if \<not> contByte (byte c3) then (runeError, 1)
                else ((s0 mod 8) * 262144 + (byte c1 mod 64) * 4096
                        + (byte c2 mod 64) * 64 + byte c3 mod 64, 4)
            | _ \<Rightarrow> (runeError, 1)))"

lemma DecodeRune_size: "1 \<le> snd (DecodeRuneInString (c # cs))"
  by (auto simp: Let_def split: list.splits)

lemma DecodeRune_size_le: "snd (DecodeRuneInString s) \<le> 4"
  by (cases s) (auto simp: Let_def split: list.splits)

text \<open>The runes of a string, as a \<^verbatim>\<open>range\<close> loop or the matcher of \<^verbatim>\<open>regexp\<close>
  reads them.\<close>

function runesOf :: "string \<Rightarrow> nat list" where
  "runesOf [] = []"
| "runesOf (c # cs) =
     fst (DecodeRuneInString (c # cs)) # runesOf (drop (snd (DecodeRuneInString (c # cs))) (c # cs))"
  by pat_completeness auto
termination
proof (relation "measure length")
  show "wf (measure length)" by simp
next
  fix c cs
  have "1 \<le> snd (DecodeRuneInString (c # cs))" by (rule DecodeRune_size)
  then show "(drop (snd (DecodeRuneInString (c # cs))) (c # cs), c # cs) \<in> measure length"
    by simp
qed

text \<open>\<^verbatim>\<open>checkUTF8\<close> of \<^verbatim>\<open>regexp/syntax\<close>: no byte decodes as an error of width 1.\<close>

function checkUTF8 :: "string \<Rightarrow> bool" where
  "checkUTF8 [] = True"
| "checkUTF8 (c # cs) =
     (if fst (DecodeRuneInString (c # cs)) = runeError \<and> snd (DecodeRuneInString (c # cs)) = 1
      then False
      else checkUTF8 (drop (snd (DecodeRuneInString (c # cs))) (c # cs)))"
  by pat_completeness auto
termination
proof (relation "measure length")
  show "wf (measure length)" by simp
next
  fix c cs
  have "1 \<le> snd (DecodeRuneInString (c # cs))" by (rule DecodeRune_size)
  then show "(drop (snd (DecodeRuneInString (c # cs))) (c # cs), c # cs) \<in> measure length"
    by simp
qed

section \<open>Errors\<close>

text \<open>One constructor for every error value the package builds or passes on.\<close>

datatype error =
    ErrEmptyPattern
  | ErrDepthExceeded
  | ErrHostArgRequired
  | ErrSpecDecode
  | ErrUnknownDirective string
  | ErrUnsupportedDirective string
  | ErrDeprecatedDirective string
  | ErrYesNo string
  | ErrUint string
  | ErrEnum string string
  | ErrListEmpty string
  | ErrMatchRequiresCriteria
  | ErrMatchMissingArgument string
  | ErrMatchUnterminatedQuote
  | ErrMatchAllCombined
  | ErrLocalNetworkCallbackMissing
  | ErrExecCallbackMissing
  | ErrUnsupportedMatchAttribute string
  | ErrUnknownNodeType
  | ErrCallback string
  | ErrFile string
  | ErrInvalidUTF8
  | ErrRegexpSyntax

section \<open>Patterns\<close>

text \<open>
  \<^verbatim>\<open>NewPattern\<close> writes the text of an anchored regular expression, byte by byte,
  and compiles it with \<^verbatim>\<open>regexp.Compile\<close>. The package \<^verbatim>\<open>regexp\<close> is not part of the
  repository; \<open>regexpCompile\<close> and \<open>MatchString\<close> give what it does on the texts that
  \<^verbatim>\<open>NewPattern\<close> can write: the text must be valid UTF-8 (else the error
  \<open>ErrInvalidUTF8\<close>), and is read as \<^verbatim>\<open>^\<close>, then \<^verbatim>\<open>.*\<close>, \<^verbatim>\<open>.?\<close>, an escaped
  character or a plain character, up to the closing \<^verbatim>\<open>$\<close>. A compiled expression is
  the list of these atoms over runes. Matching decodes the value into runes; the whole
  value must match, and \<^verbatim>\<open>.\<close> stands for any rune but a newline.
\<close>

datatype reAtom = AnyStar | AnyOpt | Lit nat

type_synonym Regexp = "reAtom list"

fun parseRe :: "nat list \<Rightarrow> reAtom list option" where
  "parseRe [] = None"
| "parseRe [c] = (if c = 36 then Some [] else None)"
| "parseRe (c # d # r) =
     (if c = 46 \<and> d = 42 then map_option (Cons AnyStar) (parseRe r)
      else if c = 46 \<and> d = 63 then map_option (Cons AnyOpt) (parseRe r)
      else if c = 92 then map_option (Cons (Lit d)) (parseRe r)
      else map_option (Cons (Lit c)) (parseRe (d # r)))"

definition regexpCompile :: "string \<Rightarrow> error + Regexp" where
  "regexpCompile text =
     (if \<not> checkUTF8 text then Inl ErrInvalidUTF8
      else case runesOf text of
             [] \<Rightarrow> Inl ErrRegexpSyntax
           | c # body \<Rightarrow>
               if c = 94 then (case parseRe body of
                                 None \<Rightarrow> Inl ErrRegexpSyntax
                               | Some atoms \<Rightarrow> Inr atoms)
               else Inl ErrRegexpSyntax)"

fun reMatch :: "Regexp \<Rightarrow> nat list \<Rightarrow> bool" where
  "reMatch [] s = (s = [])"
| "reMatch (Lit c # r) s =
     (case s of [] \<Rightarrow> False | x # xs \<Rightarrow> x = c \<and> reMatch r xs)"
| "reMatch (AnyOpt # r) s =
     (reMatch r s \<or>
      (case s of [] \<Rightarrow> False | x # xs \<Rightarrow> x \<noteq> 10 \<and> reMatch r xs))"
| "reMatch (AnyStar # r) s =
     (reMatch r s \<or>
      (case s of [] \<Rightarrow> False | x # xs \<Rightarrow> x \<noteq> 10 \<and> reMatch (AnyStar # r) xs))"

definition MatchString :: "Regexp \<Rightarrow> string \<Rightarrow> bool" where
  "MatchString re s = reMatch re (runesOf s)"

record Pattern =
  str :: string
  regex :: Regexp
  not :: bool

definition specialBytes :: string where
  "specialBytes = [CHR 0x5C] @ ''.+()|[]{}^$''"

definition special :: "char \<Rightarrow> bool" where
  "special b = (b \<in> set specialBytes)"

text \<open>What the loop of \<^verbatim>\<open>NewPattern\<close> writes to the buffer for one byte.\<close>

definition quoteByte :: "char \<Rightarrow> string" where
  "quoteByte b =
     (if b = CHR ''*'' then ''.*''
      else if b = CHR ''?'' then ''.?''
      else if special b then [CHR 0x5C, b]
      else [b])"

definition NewPattern :: "string \<Rightarrow> error + Pattern" where
  "NewPattern s =
     (case s of
        [] \<Rightarrow> Inl ErrEmptyPattern
      | c # cs \<Rightarrow>
          (let negated = (c = CHR ''!'');
               s' = (if negated then cs else s);
               buf = ''^'' @ concat (map quoteByte s') @ ''$''
           in case regexpCompile buf of
                Inl err \<Rightarrow> Inl err
              | Inr r \<Rightarrow> Inr \<lparr>str = s', regex = r, not = negated\<rparr>))"

text \<open>\<^verbatim>\<open>Host.Matches\<close>, the loop over \<^verbatim>\<open>h.Patterns\<close> with its running flag.\<close>

fun MatchesFrom :: "Pattern list \<Rightarrow> string \<Rightarrow> bool \<Rightarrow> bool" where
  "MatchesFrom [] alias found = found"
| "MatchesFrom (p # ps) alias found =
     (if MatchString (regex p) alias
      then (if not p then False else MatchesFrom ps alias True)
      else MatchesFrom ps alias found)"

definition PatternsMatch :: "Pattern list \<Rightarrow> string \<Rightarrow> bool" where
  "PatternsMatch ps alias = MatchesFrom ps alias False"

subsection \<open>Pattern lists\<close>

definition splitPatternList :: "string \<Rightarrow> string list" where
  "splitPatternList patterns =
     FieldsFunc patterns (\<lambda>r. r = CHR '','' \<or> r = CHR '' '' \<or> r = CHR 0x09)"

definition matchPattern :: "string \<Rightarrow> string \<Rightarrow> error + bool" where
  "matchPattern v pattern =
     (if pattern = [] then Inr False
      else case NewPattern pattern of
             Inl e \<Rightarrow> Inl e
           | Inr pat \<Rightarrow> Inr (MatchString (regex pat) v))"

fun matchParts :: "string \<Rightarrow> bool \<Rightarrow> string list \<Rightarrow> bool \<Rightarrow> bool \<times> error option" where
  "matchParts v ci [] matched = (matched, None)"
| "matchParts v ci (part # parts) matched =
     (if part = [] then matchParts v ci parts matched
      else let negate = HasPrefix part ''!'';
               part' = (if negate then TrimPrefix part ''!'' else part);
               pattern = (if ci then ToLower part' else part')
           in case matchPattern v pattern of
                Inl err \<Rightarrow> (False, Some err)
              | Inr ok \<Rightarrow>
                  (if ok then (if negate then (False, None)
                               else matchParts v ci parts True)
                   else matchParts v ci parts matched))"

definition matchPatternList :: "string \<Rightarrow> string \<Rightarrow> bool \<Rightarrow> bool \<times> error option" where
  "matchPatternList v patternList caseInsensitive =
     matchParts (if caseInsensitive then ToLower v else v) caseInsensitive
       (splitPatternList patternList) False"

section \<open>Results\<close>

text \<open>
  A Go slice is a header (the address of its backing array and a length) over an array
  in memory. The store maps addresses to arrays; \<open>nextFree\<close> is the first address not yet
  allocated. A nil slice and a nil \<^verbatim>\<open>*Result\<close> are \<open>None\<close>. Dereferencing nil and
  indexing out of range are panics, returned as values.
\<close>

datatype panic = NilDereference | IndexOutOfRange

type_synonym addr = nat

record slice =
  base :: addr
  len :: nat

record store =
  cells :: "addr \<Rightarrow> string list"
  nextFree :: addr

record Result =
  valuesMap :: "string \<rightharpoonup> slice"

definition readSlice :: "store \<Rightarrow> slice \<Rightarrow> string list" where
  "readSlice st sl = take (len sl) (cells st (base sl))"

definition indexSlice :: "store \<Rightarrow> slice option \<Rightarrow> nat \<Rightarrow> panic + string" where
  "indexSlice st sl i =
     (case sl of
        None \<Rightarrow> Inl IndexOutOfRange
      | Some h \<Rightarrow> if i < len h then Inr (cells st (base h) ! i) else Inl IndexOutOfRange)"

definition writeSlice :: "store \<Rightarrow> slice \<Rightarrow> nat \<Rightarrow> string \<Rightarrow> panic + store" where
  "writeSlice st sl i v =
     (if i < len sl
      then Inr (st\<lparr>cells := (cells st)(base sl := (cells st (base sl))[i := v])\<rparr>)
      else Inl IndexOutOfRange)"

definition lenSlice :: "slice option \<Rightarrow> nat" where
  "lenSlice sl = (case sl of None \<Rightarrow> 0 | Some h \<Rightarrow> len h)"

text \<open>\<^verbatim>\<open>make([]string, n)\<close> followed by \<^verbatim>\<open>copy(out, vals)\<close> with \<open>n = len(vals)\<close>.\<close>

definition makeCopy :: "store \<Rightarrow> slice \<Rightarrow> slice \<times> store" where
  "makeCopy st vals =
     (let a = nextFree st;
          zeroed = replicate (len vals) [];
          copied = readSlice st vals @ drop (length (readSlice st vals)) zeroed
      in (\<lparr>base = a, len = len vals\<rparr>,
          st\<lparr>cells := (cells st)(a := copied), nextFree := Suc a\<rparr>))"

definition deref :: "'a option \<Rightarrow> panic + 'a" where
  "deref r = (case r of None \<Rightarrow> Inl NilDereference | Some x \<Rightarrow> Inr x)"

definition GetAll :: "store \<Rightarrow> Result option \<Rightarrow> string \<Rightarrow> panic + (slice option \<times> store)" where
  "GetAll st r key =
     (if r = None then Inr (None, st)
      else case deref r of
             Inl p \<Rightarrow> Inl p
           | Inr res \<Rightarrow>
               (let vals = valuesMap res (ToLower key)
                in if lenSlice vals = 0 then Inr (None, st)
                   else case vals of
                          None \<Rightarrow> Inr (None, st)
                        | Some h \<Rightarrow> (let (out, st') = makeCopy st h in Inr (Some out, st'))))"

definition Get :: "store \<Rightarrow> Result option \<Rightarrow> string \<Rightarrow> panic + (string \<times> store)" where
  "Get st r key =
     (if r = None then Inr ([], st)
      else case GetAll st r key of
             Inl p \<Rightarrow> Inl p
           | Inr (vals, st') \<Rightarrow>
               (if lenSlice vals = 0 then Inr ([], st')
                else case indexSlice st' vals 0 of
                       Inl p \<Rightarrow> Inl p
                     | Inr v \<Rightarrow> Inr (v, st')))"

text \<open>The slices of a Result lie in allocated memory, each within its array.\<close>

definition allocated :: "store \<Rightarrow> Result \<Rightarrow> bool" where
  "allocated st r =
     (\<forall>k h. valuesMap r k = Some h \<longrightarrow> base h < nextFree st \<and> len h \<le> length (cells st (base h)))"

section \<open>The client spec\<close>

text \<open>
  The embedded JSON document is not part of the sources; its decoded content is a
  parameter. A \<^verbatim>\<open>default\<close> is decoded into an \<^verbatim>\<open>interface{}\<close>: absent, a
  string, an array (whose items may or may not be strings), or something else.
\<close>

datatype jsonValue =
    JNull
  | JString string
  | JArray "string option list"
  | JStrings "string list"
  | JOther

record specDirective =
  Name :: string
  Canonical :: string
  Status :: string
  Type :: string
  Multi :: bool
  DefaultValue :: jsonValue
  AliasFor :: string
  Enum :: "string list"
  Tokens :: "string list"
  TokensAll :: bool
  Env :: bool
  EnvUnixPaths :: bool

record clientSpec =
  OpenSSHVersion :: string
  Directives :: "specDirective list"
  MatchExecTokens :: "string list"

text \<open>
  The index \<^verbatim>\<open>spec.byName\<close>, as the loop of \<^verbatim>\<open>loadClientSpec\<close> fills it: one
  assignment per directive, in order, under the lowercased name.
\<close>

definition indexByName :: "specDirective list \<Rightarrow> (string \<rightharpoonup> specDirective)" where
  "indexByName ds = foldl (\<lambda>m d. m(ToLower (Name d) \<mapsto> d)) Map.empty ds"

definition byName :: "clientSpec \<Rightarrow> (string \<rightharpoonup> specDirective)" where
  "byName spec = indexByName (Directives spec)"

definition loadClientSpec :: "error + clientSpec \<Rightarrow> error + clientSpec" where
  "loadClientSpec decoded =
     (case decoded of
        Inl e \<Rightarrow> Inl ErrSpecDecode
      | Inr spec \<Rightarrow> Inr spec)"

fun defaultValues :: "specDirective option \<Rightarrow> string list" where
  "defaultValues None = []"
| "defaultValues (Some d) =
     (case DefaultValue d of
        JNull \<Rightarrow> []
      | JString v \<Rightarrow> (if v = [] then [] else [v])
      | JArray items \<Rightarrow> concat (map (\<lambda>item. case item of
                                                 None \<Rightarrow> []
                                               | Some s \<Rightarrow> if s \<noteq> [] then [s] else []) items)
      | JStrings v \<Rightarrow> v
      | JOther \<Rightarrow> [])"









section \<open>Resolver: context, options, state\<close>

text \<open>
  Callbacks are functions returning the pair the Go callback returns (a nil function is
  \<open>None\<close>). What the resolver reads from the operating system (host name, current user,
  home directory) and the SHA-1 digest are given by \<open>osEnv\<close>.
\<close>

record Context =
  HostArg :: string
  OriginalHost :: string
  LocalUser :: string
  Version :: string
  SessionType :: string
  Command :: string
  Exec :: "(string \<Rightarrow> bool \<times> error option) option"
  LocalNetwork :: "(string \<Rightarrow> bool \<times> error option) option"

record resolveOptions =
  strict :: bool
  finalPass :: bool
  canonicalize :: "(string \<Rightarrow> string \<times> bool \<times> error option) option"

type_synonym ResolveOption = "resolveOptions \<Rightarrow> resolveOptions"

definition Strict :: ResolveOption where
  "Strict opts = opts\<lparr>strict := True\<rparr>"

definition FinalPass :: ResolveOption where
  "FinalPass opts = opts\<lparr>finalPass := True\<rparr>"

definition Canonicalize :: "(string \<Rightarrow> string \<times> bool \<times> error option) option \<Rightarrow> ResolveOption" where
  "Canonicalize fn opts = opts\<lparr>canonicalize := fn\<rparr>"

datatype passType = passInitial | passCanonical | passFinal

record resolveState =
  stateValues :: "string \<rightharpoonup> string list"
  ignoreUnknown :: string

record osEnv =
  osHostname :: string
  currentUserName :: string
  currentUID :: string
  currentHomeDir :: string
  sha1Hex :: "string \<Rightarrow> string"

definition firstValue :: "(string \<rightharpoonup> string list) \<Rightarrow> string \<Rightarrow> string" where
  "firstValue vals key =
     (case vals (ToLower key) of
        None \<Rightarrow> []
      | Some vs \<Rightarrow> (case vs of [] \<Rightarrow> [] | v # rest \<Rightarrow> v))"

definition matchesIgnoreUnknown :: "string \<Rightarrow> string \<Rightarrow> bool" where
  "matchesIgnoreUnknown patterns key =
     (if patterns = [] then False else fst (matchPatternList key patterns True))"

section \<open>Match criteria\<close>

record matchCriterion =
  critName :: string
  critValue :: string
  critNegate :: bool

definition flush :: "string list \<Rightarrow> string \<Rightarrow> string list \<times> string" where
  "flush flds field = (if field = [] then (flds, []) else (flds @ [field], []))"

fun tokenizeRunes :: "string \<Rightarrow> string list \<Rightarrow> string \<Rightarrow> bool \<Rightarrow> bool
    \<Rightarrow> string list \<times> string \<times> bool \<times> bool" where
  "tokenizeRunes [] flds field inQuotes escaped = (flds, field, inQuotes, escaped)"
| "tokenizeRunes (r # rs) flds field inQuotes escaped =
     (if escaped then
        (if r = CHR '' '' \<or> r = CHR 0x09 \<or> r = CHR 0x22 \<or> r = CHR 0x5C
         then tokenizeRunes rs flds (field @ [r]) inQuotes False
         else tokenizeRunes rs flds (field @ [CHR 0x5C, r]) inQuotes False)
      else if r = CHR 0x5C then tokenizeRunes rs flds field inQuotes True
      else if r = CHR 0x22 then tokenizeRunes rs flds field (\<not> inQuotes) False
      else if r = CHR '' '' \<or> r = CHR 0x09 then
        (if inQuotes then tokenizeRunes rs flds (field @ [r]) inQuotes False
         else tokenizeRunes rs (fst (flush flds field)) (snd (flush flds field))
                inQuotes False)
      else tokenizeRunes rs flds (field @ [r]) inQuotes False)"

definition tokenizeMatchCriteria :: "string \<Rightarrow> error + string list" where
  "tokenizeMatchCriteria raw =
     (case tokenizeRunes raw [] [] False False of
        (flds, field, inQuotes, escaped) \<Rightarrow>
          (let field' = (if escaped then field @ [CHR 0x5C] else field)
           in if inQuotes then Inl ErrMatchUnterminatedQuote
              else Inr (fst (flush flds field'))))"

text \<open>\<^verbatim>\<open>strings.SplitN(field, "=", 2)\<close> on a field that contains \<^verbatim>\<open>=\<close>.\<close>

definition splitEquals :: "string \<Rightarrow> string \<times> string" where
  "splitEquals field =
     (takeWhile (\<lambda>c. c \<noteq> CHR ''='') field, drop 1 (dropWhile (\<lambda>c. c \<noteq> CHR ''='') field))"

fun parseFields :: "string list \<Rightarrow> matchCriterion list \<Rightarrow> error + matchCriterion list" where
  "parseFields [] criteria = Inr criteria"
| "parseFields (f # rest) criteria =
     (let negate = HasPrefix f ''!'';
          field = (if negate then TrimPrefix f ''!'' else f);
          name = ToLower field
      in if name = ''all'' \<or> name = ''canonical'' \<or> name = ''final''
         then parseFields rest
                (criteria @ [\<lparr>critName = name, critValue = [], critNegate = negate\<rparr>])
         else if CHR ''='' \<in> set field
         then parseFields rest
                (criteria @ [\<lparr>critName = ToLower (fst (splitEquals field)),
                              critValue = snd (splitEquals field), critNegate = negate\<rparr>])
         else (case rest of
                 [] \<Rightarrow> Inl (ErrMatchMissingArgument name)
               | arg # rest' \<Rightarrow>
                   parseFields rest'
                     (criteria @ [\<lparr>critName = name, critValue = arg, critNegate = negate\<rparr>])))"

definition parseMatchCriteria :: "string \<Rightarrow> error + matchCriterion list" where
  "parseMatchCriteria raw =
     (case tokenizeMatchCriteria raw of
        Inl err \<Rightarrow> Inl err
      | Inr flds \<Rightarrow>
          if flds = [] then Inl ErrMatchRequiresCriteria else parseFields flds [])"

text \<open>The loop of \<^verbatim>\<open>validateMatchAll\<close>: \<open>i\<close> is the index of the criterion looked at.\<close>

fun validateFrom :: "matchCriterion list \<Rightarrow> nat \<Rightarrow> matchCriterion list \<Rightarrow> error option" where
  "validateFrom criteria i [] = None"
| "validateFrom criteria i (c # cs) =
     (if critName c \<noteq> ''all'' then validateFrom criteria (Suc i) cs
      else if length criteria = 1 then None
      else if length criteria = 2 \<and> i = 1 \<and>
              (critName (criteria ! 0) = ''canonical'' \<or> critName (criteria ! 0) = ''final'')
      then None
      else Some ErrMatchAllCombined)"

definition validateMatchAll :: "matchCriterion list \<Rightarrow> error option" where
  "validateMatchAll criteria = validateFrom criteria 0 criteria"

definition applyNegation :: "bool \<Rightarrow> bool \<Rightarrow> bool" where
  "applyNegation v negate = (if negate then \<not> v else v)"

subsection \<open>Effective values and token expansion\<close>

definition remoteUser :: "Context \<Rightarrow> resolveState \<Rightarrow> string" where
  "remoteUser ctx state =
     (let user = firstValue (stateValues state) ''user''
      in if user \<noteq> [] then user else LocalUser ctx)"

definition sessionType :: "Context \<Rightarrow> resolveState \<Rightarrow> string" where
  "sessionType ctx state =
     (let st = firstValue (stateValues state) ''sessiontype''
      in if st \<noteq> [] then st
         else if Command ctx \<noteq> [] then ''exec''
         else SessionType ctx)"

fun expandHostName :: "string \<Rightarrow> string \<Rightarrow> string" where
  "expandHostName [] hostArg = []"
| "expandHostName (c # cs) hostArg =
     (if c \<noteq> CHR ''%'' then c # expandHostName cs hostArg
      else case cs of
             [] \<Rightarrow> ''%''
           | d # ds \<Rightarrow>
               (if d = CHR ''%'' then ''%''
                else if d = CHR ''h'' then hostArg
                else [CHR ''%'', d]) @ expandHostName ds hostArg)"

definition effectiveHost :: "Context \<Rightarrow> resolveState \<Rightarrow> string" where
  "effectiveHost ctx state =
     (let hn = firstValue (stateValues state) ''hostname''
      in if hn \<noteq> [] then expandHostName hn (HostArg ctx) else HostArg ctx)"

fun expandTokens :: "string \<Rightarrow> (string \<rightharpoonup> string) \<Rightarrow> string" where
  "expandTokens [] vals = []"
| "expandTokens (c # cs) vals =
     (if c \<noteq> CHR ''%'' then c # expandTokens cs vals
      else case cs of
             [] \<Rightarrow> ''%''
           | d # ds \<Rightarrow>
               (case vals [c, d] of
                  Some repl \<Rightarrow> repl
                | None \<Rightarrow> [c, d]) @ expandTokens ds vals)"

definition resolvePort :: "resolveState \<Rightarrow> clientSpec \<Rightarrow> string" where
  "resolvePort state spec =
     (let port = firstValue (stateValues state) ''port''
      in if port \<noteq> [] then port
         else case byName spec ''port'' of
                None \<Rightarrow> ''22''
              | Some d \<Rightarrow> (case defaultValues (Some d) of [] \<Rightarrow> ''22'' | v # vs \<Rightarrow> v))"

definition connectionHash :: "osEnv \<Rightarrow> string \<Rightarrow> string \<Rightarrow> string \<Rightarrow> string \<Rightarrow> string \<Rightarrow> string" where
  "connectionHash os localHost host port user jump =
     sha1Hex os (localHost @ host @ port @ user @ jump)"

definition expandMatchExec :: "osEnv \<Rightarrow> string \<Rightarrow> Context \<Rightarrow> resolveState \<Rightarrow> clientSpec
    \<Rightarrow> string \<times> error option" where
  "expandMatchExec os v ctx state spec =
     (let localHost = osHostname os;
          idx = length (takeWhile (\<lambda>c. c \<noteq> CHR ''.'') localHost);
          shortHost = (if CHR ''.'' \<in> set localHost \<and> idx > 0 then take idx localHost
                       else localHost);
          port = resolvePort state spec;
          remote = remoteUser ctx state;
          jump0 = firstValue (stateValues state) ''proxyjump'';
          jump = (if ToLower jump0 = ''none'' then [] else jump0);
          host = effectiveHost ctx state;
          keyAlias0 = firstValue (stateValues state) ''hostkeyalias'';
          keyAlias = (if keyAlias0 = [] then host else keyAlias0);
          uid = currentUID os;
          connHash = connectionHash os localHost host port remote jump;
          vals = [''%%'' \<mapsto> ''%'', ''%C'' \<mapsto> connHash, ''%L'' \<mapsto> shortHost,
                  ''%d'' \<mapsto> currentHomeDir os, ''%h'' \<mapsto> host, ''%k'' \<mapsto> keyAlias,
                  ''%l'' \<mapsto> localHost, ''%n'' \<mapsto> OriginalHost ctx, ''%p'' \<mapsto> port,
                  ''%r'' \<mapsto> remote, ''%u'' \<mapsto> LocalUser ctx, ''%i'' \<mapsto> uid,
                  ''%j'' \<mapsto> jump]
      in (expandTokens v vals, None))"

subsection \<open>Evaluation\<close>

definition negated :: "bool \<times> error option \<Rightarrow> bool \<Rightarrow> bool \<times> error option" where
  "negated r negate = (applyNegation (fst r) negate, snd r)"

definition evalCriterion :: "osEnv \<Rightarrow> matchCriterion \<Rightarrow> Context \<Rightarrow> passType \<Rightarrow> resolveOptions
    \<Rightarrow> clientSpec \<Rightarrow> resolveState \<Rightarrow> bool \<times> error option" where
  "evalCriterion os c ctx pass options spec state =
     (let negate = critNegate c; nm = critName c
      in if nm = ''all'' then (applyNegation True negate, None)
      else if nm = ''canonical'' then (applyNegation (pass = passCanonical) negate, None)
      else if nm = ''final'' then (applyNegation (pass = passFinal) negate, None)
      else if nm = ''host'' then
        negated (matchPatternList (effectiveHost ctx state) (critValue c) True) negate
      else if nm = ''originalhost'' then
        negated (matchPatternList (OriginalHost ctx) (critValue c) True) negate
      else if nm = ''user'' then
        negated (matchPatternList (remoteUser ctx state) (critValue c) False) negate
      else if nm = ''localuser'' then
        negated (matchPatternList (LocalUser ctx) (critValue c) False) negate
      else if nm = ''localnetwork'' then
        (case LocalNetwork ctx of
           None \<Rightarrow> if strict options then (False, Some ErrLocalNetworkCallbackMissing)
                   else (False, None)
         | Some cb \<Rightarrow>
             (case cb (critValue c) of
                (ok, Some err) \<Rightarrow> if strict options then (False, Some err) else (False, None)
              | (ok, None) \<Rightarrow> (applyNegation ok negate, None)))
      else if nm = ''version'' then
        negated (matchPatternList (Version ctx) (critValue c) False) negate
      else if nm = ''tagged'' then
        (let tag = firstValue (stateValues state) ''tag''
         in if tag = [] \<and> critValue c = [] then (applyNegation True negate, None)
            else negated (matchPatternList tag (critValue c) False) negate)
      else if nm = ''command'' then
        (if Command ctx = [] \<and> critValue c = [] then (applyNegation True negate, None)
         else negated (matchPatternList (Command ctx) (critValue c) False) negate)
      else if nm = ''sessiontype'' then
        negated (matchPatternList (sessionType ctx state) (critValue c) False) negate
      else if nm = ''exec'' then
        (case Exec ctx of
           None \<Rightarrow> if strict options then (False, Some ErrExecCallbackMissing)
                   else (False, None)
         | Some cb \<Rightarrow>
             (case expandMatchExec os (critValue c) ctx state spec of
                (cmd, Some err) \<Rightarrow> if strict options then (False, Some err) else (False, None)
              | (cmd, None) \<Rightarrow>
                  (case cb cmd of
                     (ok, Some err) \<Rightarrow>
                       if strict options then (False, Some err) else (False, None)
                   | (ok, None) \<Rightarrow> (applyNegation ok negate, None))))
      else if strict options then (False, Some (ErrUnsupportedMatchAttribute nm))
      else (False, None))"

fun evalCriteria :: "osEnv \<Rightarrow> matchCriterion list \<Rightarrow> Context \<Rightarrow> passType \<Rightarrow> resolveOptions
    \<Rightarrow> clientSpec \<Rightarrow> resolveState \<Rightarrow> bool \<Rightarrow> bool \<times> error option" where
  "evalCriteria os [] ctx pass options spec state result = (result, None)"
| "evalCriteria os (c # cs) ctx pass options spec state result =
     (if \<not> result \<and> critName c = ''exec''
      then evalCriteria os cs ctx pass options spec state result
      else case evalCriterion os c ctx pass options spec state of
             (matched, Some err) \<Rightarrow> (False, Some err)
           | (matched, None) \<Rightarrow>
               evalCriteria os cs ctx pass options spec state
                 (if \<not> matched then False else result))"

definition evalMatch :: "osEnv \<Rightarrow> matchCriterion list \<Rightarrow> Context \<Rightarrow> passType \<Rightarrow> resolveOptions
    \<Rightarrow> clientSpec \<Rightarrow> resolveState \<Rightarrow> bool \<times> error option" where
  "evalMatch os criteria ctx pass options spec state =
     (if criteria = [] then (False, Some ErrMatchRequiresCriteria)
      else case validateMatchAll criteria of
             Some err \<Rightarrow> (False, Some err)
           | None \<Rightarrow> evalCriteria os criteria ctx pass options spec state True)"

section \<open>Documents\<close>

text \<open>
  A \<^verbatim>\<open>Node\<close> is a key/value line, an empty or comment line, or an Include with its
  parsed files; the interface can also hold a value of a type from outside the package
  (\<open>OtherNode\<close>, with what its \<^verbatim>\<open>String\<close> returns). The map \<^verbatim>\<open>files\<close> of an
  Include is kept as the list of its entries. Columns and indentation are naturals
  (the parser sets \<^verbatim>\<open>leadingSpace\<close> to a column minus one).
\<close>

record Position =
  Line :: nat
  Col :: nat

record KV =
  Key :: string
  Value :: string
  spaceAfterValue :: string
  Comment :: string
  hasEquals :: bool
  leadingSpace :: nat
  position :: Position

record Empty =
  emptyComment :: string
  emptyLeadingSpace :: nat
  emptyPosition :: Position

datatype Node = KVNode KV | EmptyNode Empty | IncludeNode Include | OtherNode string
and Include = Include (incComment: string) (directives: "string list") (matches: "string list")
    (files: "(string \<times> Config) list") (incLeadingSpace: nat) (incPosition: Position)
    (incDepth: nat) (incHasEquals: bool)
and Host = Host (Patterns: "Pattern list") (Nodes: "Node list") (EOLComment: string)
    (spaceBeforeComment: string) (hostHasEquals: bool) (hostLeadingSpace: nat)
    (implicit: bool) (hostPosition: Position)
and Match = Match (Criteria: string) (matchNodes: "Node list") (matchEOLComment: string)
    (matchSpaceBeforeComment: string) (matchHasEquals: bool) (matchLeadingSpace: nat)
    (matchPosition: Position)
and Block = HostBlock Host | MatchBlock Match
and Config = Config (Hosts: "Host list") (Blocks: "Block list") (depth: nat)
    (cfgPosition: Position) (hasMatch: bool)

definition Matches :: "Host \<Rightarrow> string \<Rightarrow> bool" where
  "Matches h alias = PatternsMatch (Patterns h) alias"

definition effectiveBlocks :: "Config \<Rightarrow> Block list" where
  "effectiveBlocks c = (if length (Blocks c) > 0 then Blocks c else map HostBlock (Hosts c))"

text \<open>A weight for the termination of the walk: every Host counts the same inside a
  Block and in the legacy \<^verbatim>\<open>Hosts\<close> sequence.\<close>

primrec wNode :: "Node \<Rightarrow> nat" and wInclude :: "Include \<Rightarrow> nat" and wHost :: "Host \<Rightarrow> nat"
  and wMatch :: "Match \<Rightarrow> nat" and wBlock :: "Block \<Rightarrow> nat" and wConfig :: "Config \<Rightarrow> nat" where
  "wNode (KVNode k) = 0"
| "wNode (EmptyNode e) = 0"
| "wNode (IncludeNode i) = wInclude i"
| "wNode (OtherNode s) = 0"
| "wInclude (Include c ds ms fs l p d h) =
     Suc (sum_list (map (\<lambda>pc. Suc (snd pc)) (map (map_prod id wConfig) fs)))"
| "wHost (Host ps ns c s e l i p) = Suc (sum_list (map Suc (map wNode ns)))"
| "wMatch (Match cr ns c s e l p) = Suc (sum_list (map Suc (map wNode ns)))"
| "wBlock (HostBlock h) = wHost h"
| "wBlock (MatchBlock m) = wMatch m"
| "wConfig (Config hs bs d p hm) =
     Suc (sum_list (map Suc (map wHost hs)) + sum_list (map Suc (map wBlock bs)))"

section \<open>Resolver: directives\<close>

definition isDigit :: "char \<Rightarrow> bool" where
  "isDigit r = (r \<in> set ''0123456789'')"

definition validateValue :: "specDirective \<Rightarrow> string \<Rightarrow> error option" where
  "validateValue directive v =
     (let val = TrimSpace v
      in if Type directive = ''yesno'' then
           (let lower = ToLower val
            in if lower \<noteq> ''yes'' \<and> lower \<noteq> ''no'' then Some (ErrYesNo (Name directive))
               else None)
         else if Type directive = ''uint'' then
           (if val = [] then Some (ErrUint (Name directive))
            else if \<exists>r \<in> set val. \<not> isDigit r then Some (ErrUint (Name directive))
            else None)
         else if Type directive = ''enum'' then
           (if length (Enum directive) = 0 then None
            else if ToLower val \<in> set (map ToLower (Enum directive)) then None
            else Some (ErrEnum v (Name directive)))
         else if Type directive = ''list'' then
           (if val = [] then Some (ErrListEmpty (Name directive)) else None)
         else None)"

definition canonicalKey :: "specDirective \<Rightarrow> string" where
  "canonicalKey directive =
     ToLower (if AliasFor directive \<noteq> [] then AliasFor directive else Canonical directive)"

definition applyDirective :: "string \<Rightarrow> string \<Rightarrow> bool \<Rightarrow> Context \<Rightarrow> passType \<Rightarrow> resolveOptions
    \<Rightarrow> clientSpec \<Rightarrow> resolveState \<Rightarrow> error + resolveState" where
  "applyDirective key v active ctx pass options spec state =
     (let lkey = ToLower (TrimSpace key)
      in case byName spec lkey of
           None \<Rightarrow>
             (if strict options
              then (if matchesIgnoreUnknown (ignoreUnknown state) lkey then Inr state
                    else Inl (ErrUnknownDirective key))
              else Inr state)
         | Some directive \<Rightarrow>
             if Status directive = ''unsupported''
             then (if strict options then Inl (ErrUnsupportedDirective key) else Inr state)
             else if Status directive = ''deprecated'' \<and> AliasFor directive = [] \<and> strict options
             then Inl (ErrDeprecatedDirective key)
             else case (if strict options then validateValue directive v else None) of
                    Some err \<Rightarrow> Inl err
                  | None \<Rightarrow>
                      if \<not> active then Inr state
                      else let canonical = canonicalKey directive
                           in if canonical = ''ignoreunknown'' then
                                (case stateValues state canonical of
                                   None \<Rightarrow> Inr (state\<lparr>stateValues := (stateValues state)(canonical \<mapsto> [v]),
                                                       ignoreUnknown := v\<rparr>)
                                 | Some old \<Rightarrow> Inr state)
                              else if Multi directive then
                                Inr (state\<lparr>stateValues := (stateValues state)(canonical \<mapsto>
                                       (case stateValues state canonical of
                                          None \<Rightarrow> [] | Some old \<Rightarrow> old) @ [v])\<rparr>)
                              else
                                (case stateValues state canonical of
                                   None \<Rightarrow> Inr (state\<lparr>stateValues := (stateValues state)(canonical \<mapsto> [v])\<rparr>)
                                 | Some old \<Rightarrow> Inr state))"

section \<open>Resolver: walking documents\<close>

text \<open>
  The loops of \<^verbatim>\<open>resolveConfig\<close> (over blocks) and \<^verbatim>\<open>resolveNodes\<close> (over nodes,
  and over the matches of an Include) are the recursive functions \<open>resolveBlocks\<close>,
  \<open>resolveNodes\<close> and \<open>resolveFiles\<close>. An error ends the walk; the state is returned
  otherwise. \<open>hostActive\<close> and \<open>matchActive\<close> are the computations of \<^verbatim>\<open>active\<close> in
  the two cases of the type switch.
\<close>

definition matchActive :: "osEnv \<Rightarrow> Match \<Rightarrow> Context \<Rightarrow> passType \<Rightarrow> resolveOptions
    \<Rightarrow> clientSpec \<Rightarrow> resolveState \<Rightarrow> bool \<Rightarrow> error + bool" where
  "matchActive os b ctx pass options spec state neverMatch =
     (if \<not> neverMatch then
        (case parseMatchCriteria (Criteria b) of
           Inl err \<Rightarrow> if strict options then Inl err else Inr False
         | Inr criteria \<Rightarrow>
             (case evalMatch os criteria ctx pass options spec state of
                (ok, Some err) \<Rightarrow> Inl err
              | (ok, None) \<Rightarrow> Inr ok))
      else Inr False)"

definition hostActive :: "Host \<Rightarrow> Context \<Rightarrow> bool \<Rightarrow> bool" where
  "hostActive b ctx neverMatch = (if \<not> neverMatch then Matches b (HostArg ctx) else False)"

lemma wConfig_lookup:
  "map_of fs p = Some cfg \<Longrightarrow>
     wConfig cfg < sum_list (map ((\<lambda>pc. Suc (snd pc)) \<circ> map_prod id wConfig) fs)"
  by (induction fs) (auto split: if_splits)

lemma wConfig_effectiveBlocks:
  "sum_list (map (Suc \<circ> wBlock) (effectiveBlocks cfg)) < wConfig cfg"
  by (cases cfg) (simp add: effectiveBlocks_def comp_def)

lemma wHost_Nodes: "sum_list (map (Suc \<circ> wNode) (Nodes h)) < Suc (wHost h + k)"
  by (cases h) simp

lemma wMatch_Nodes: "sum_list (map (Suc \<circ> wNode) (matchNodes m)) < Suc (wMatch m + k)"
  by (cases m) simp

lemma wInclude_files:
  "sum_list (map ((\<lambda>pc. Suc (snd pc)) \<circ> map_prod id wConfig) (files i)) < Suc (wInclude i + k)"
  by (cases i) simp

function resolveConfig :: "osEnv \<Rightarrow> Config \<Rightarrow> Context \<Rightarrow> passType \<Rightarrow> resolveOptions
      \<Rightarrow> clientSpec \<Rightarrow> resolveState \<Rightarrow> bool \<Rightarrow> error + resolveState"
  and resolveBlocks :: "osEnv \<Rightarrow> Block list \<Rightarrow> Context \<Rightarrow> passType \<Rightarrow> resolveOptions
      \<Rightarrow> clientSpec \<Rightarrow> resolveState \<Rightarrow> bool \<Rightarrow> error + resolveState"
  and resolveNodes :: "osEnv \<Rightarrow> Node list \<Rightarrow> bool \<Rightarrow> Context \<Rightarrow> passType \<Rightarrow> resolveOptions
      \<Rightarrow> clientSpec \<Rightarrow> resolveState \<Rightarrow> bool \<Rightarrow> error + resolveState"
  and resolveFiles :: "osEnv \<Rightarrow> string list \<Rightarrow> (string \<times> Config) list \<Rightarrow> Context \<Rightarrow> passType
      \<Rightarrow> resolveOptions \<Rightarrow> clientSpec \<Rightarrow> resolveState \<Rightarrow> bool \<Rightarrow> error + resolveState"
where
  "resolveConfig os cfg ctx pass options spec state neverMatch =
     resolveBlocks os (effectiveBlocks cfg) ctx pass options spec state neverMatch"
| "resolveBlocks os [] ctx pass options spec state neverMatch = Inr state"
| "resolveBlocks os (block # blocks) ctx pass options spec state neverMatch =
     (case block of
        HostBlock b \<Rightarrow>
          (case resolveNodes os (Nodes b) (hostActive b ctx neverMatch) ctx pass options spec
                  state neverMatch of
             Inl err \<Rightarrow> Inl err
           | Inr state' \<Rightarrow> resolveBlocks os blocks ctx pass options spec state' neverMatch)
      | MatchBlock b \<Rightarrow>
          (case matchActive os b ctx pass options spec state neverMatch of
             Inl err \<Rightarrow> Inl err
           | Inr active \<Rightarrow>
               (case resolveNodes os (matchNodes b) active ctx pass options spec state
                       neverMatch of
                  Inl err \<Rightarrow> Inl err
                | Inr state' \<Rightarrow> resolveBlocks os blocks ctx pass options spec state' neverMatch)))"
| "resolveNodes os [] active ctx pass options spec state neverMatch = Inr state"
| "resolveNodes os (node # nodes) active ctx pass options spec state neverMatch =
     (case node of
        EmptyNode n \<Rightarrow> resolveNodes os nodes active ctx pass options spec state neverMatch
      | KVNode n \<Rightarrow>
          (case applyDirective (Key n) (Value n) active ctx pass options spec state of
             Inl err \<Rightarrow> Inl err
           | Inr state' \<Rightarrow> resolveNodes os nodes active ctx pass options spec state' neverMatch)
      | IncludeNode n \<Rightarrow>
          (case resolveFiles os (matches n) (files n) ctx pass options spec state
                  (neverMatch \<or> \<not> active) of
             Inl err \<Rightarrow> Inl err
           | Inr state' \<Rightarrow> resolveNodes os nodes active ctx pass options spec state' neverMatch)
      | OtherNode n \<Rightarrow> Inl ErrUnknownNodeType)"
| "resolveFiles os [] fs ctx pass options spec state includeNeverMatch = Inr state"
| "resolveFiles os (path # paths) fs ctx pass options spec state includeNeverMatch =
     (case map_of fs path of
        None \<Rightarrow> resolveFiles os paths fs ctx pass options spec state includeNeverMatch
      | Some cfg \<Rightarrow>
          (case resolveConfig os cfg ctx pass options spec state includeNeverMatch of
             Inl err \<Rightarrow> Inl err
           | Inr state' \<Rightarrow>
               resolveFiles os paths fs ctx pass options spec state' includeNeverMatch))"
  by pat_completeness auto
termination
  apply (relation "(\<lambda>x. case x of
        Inl (Inl (os, cfg, r)) \<Rightarrow> wConfig cfg
      | Inl (Inr (os, bs, r)) \<Rightarrow> sum_list (map Suc (map wBlock bs))
      | Inr (Inl (os, ns, r)) \<Rightarrow> sum_list (map Suc (map wNode ns))
      | Inr (Inr (os, ps, fs, r)) \<Rightarrow>
          sum_list (map (\<lambda>pc. Suc (snd pc)) (map (map_prod id wConfig) fs)))
     <*mlex*> measure (\<lambda>x. case x of
        Inr (Inr (os, ps, fs, r)) \<Rightarrow> length ps | _ \<Rightarrow> 0)")
  apply (simp add: wf_mlex)
  apply (simp_all add: mlex_prod_def wConfig_effectiveBlocks wHost_Nodes wMatch_Nodes
      wInclude_files wConfig_lookup)
  done


definition newState :: resolveState where
  "newState = \<lparr>stateValues = Map.empty, ignoreUnknown = []\<rparr>"

fun resolveAll :: "osEnv \<Rightarrow> Config option list \<Rightarrow> Context \<Rightarrow> passType \<Rightarrow> resolveOptions
    \<Rightarrow> clientSpec \<Rightarrow> resolveState \<Rightarrow> error + resolveState" where
  "resolveAll os [] ctx pass options spec state = Inr state"
| "resolveAll os (cfg # configs) ctx pass options spec state =
     (case cfg of
        None \<Rightarrow> resolveAll os configs ctx pass options spec state
      | Some c \<Rightarrow>
          (case resolveConfig os c ctx pass options spec state False of
             Inl err \<Rightarrow> Inl err
           | Inr state' \<Rightarrow> resolveAll os configs ctx pass options spec state'))"

fun defaultsLoop :: "specDirective list \<Rightarrow> (string \<rightharpoonup> string list) \<Rightarrow> (string \<rightharpoonup> string list)" where
  "defaultsLoop [] vals = vals"
| "defaultsLoop (d # ds) vals =
     (if Name d \<noteq> Canonical d then defaultsLoop ds vals
      else if Status d \<noteq> ''supported'' then defaultsLoop ds vals
      else let key = ToLower (Name d)
           in if vals key \<noteq> None then defaultsLoop ds vals
              else let defaults = defaultValues (Some d)
                   in if length defaults = 0 then defaultsLoop ds vals
                      else if Multi d then defaultsLoop ds (vals(key \<mapsto> defaults))
                      else defaultsLoop ds (vals(key \<mapsto> [hd defaults])))"

definition applyDefaults :: "resolveState \<Rightarrow> Context \<Rightarrow> clientSpec \<Rightarrow> resolveState" where
  "applyDefaults state ctx spec =
     (let v1 = defaultsLoop (Directives spec) (stateValues state);
          v2 = (if v1 ''hostname'' = None \<and> HostArg ctx \<noteq> []
                then v1(''hostname'' \<mapsto> [HostArg ctx]) else v1);
          v3 = (if v2 ''user'' = None \<and> LocalUser ctx \<noteq> []
                then v2(''user'' \<mapsto> [LocalUser ctx]) else v2)
      in state\<lparr>stateValues := v3\<rparr>)"

text \<open>The Result of a pass is its values map.\<close>

definition resolvePass :: "osEnv \<Rightarrow> Context \<Rightarrow> passType \<Rightarrow> Config option list \<Rightarrow> resolveOptions
    \<Rightarrow> clientSpec \<Rightarrow> error + (string \<rightharpoonup> string list)" where
  "resolvePass os ctx pass configs options spec =
     (case resolveAll os configs ctx pass options spec newState of
        Inl err \<Rightarrow> Inl err
      | Inr state \<Rightarrow> Inr (stateValues (applyDefaults state ctx spec)))"

definition normalizeContext :: "osEnv \<Rightarrow> Context \<Rightarrow> clientSpec \<Rightarrow> Context" where
  "normalizeContext os ctx spec =
     (let c1 = (if OriginalHost ctx = [] then ctx\<lparr>OriginalHost := HostArg ctx\<rparr> else ctx);
          c2 = (if LocalUser c1 = [] then c1\<lparr>LocalUser := currentUserName os\<rparr> else c1);
          c3 = (if Version c2 = [] then c2\<lparr>Version := OpenSSHVersion spec\<rparr> else c2);
          c4 = (if SessionType c3 = [] then c3\<lparr>SessionType := ''shell''\<rparr> else c3)
      in c4)"

definition applyOptions :: "ResolveOption option list \<Rightarrow> resolveOptions" where
  "applyOptions opts =
     foldl (\<lambda>options opt. case opt of None \<Rightarrow> options | Some f \<Rightarrow> f options)
       \<lparr>strict = False, finalPass = False, canonicalize = None\<rparr> opts"

definition resolveConfigs :: "osEnv \<Rightarrow> error + clientSpec \<Rightarrow> Context \<Rightarrow> ResolveOption option list
    \<Rightarrow> Config option list \<Rightarrow> error + (string \<rightharpoonup> string list)" where
  "resolveConfigs os loaded ctx0 opts configs =
     (if HostArg ctx0 = [] then Inl ErrHostArgRequired
      else case loaded of
        Inl err \<Rightarrow> Inl err
      | Inr spec \<Rightarrow>
          (let ctx = normalizeContext os ctx0 spec;
               options = applyOptions opts
           in case resolvePass os ctx passInitial configs options spec of
                Inl err \<Rightarrow> Inl err
              | Inr result \<Rightarrow>
                  (case (case canonicalize options of
                           None \<Rightarrow> Inr (ctx, result)
                         | Some fn \<Rightarrow>
                             (case fn (HostArg ctx) of
                                (canonical, changed, Some err) \<Rightarrow> Inl err
                              | (canonical, changed, None) \<Rightarrow>
                                  if changed \<and> canonical \<noteq> [] then
                                    (case resolvePass os (ctx\<lparr>HostArg := canonical\<rparr>)
                                            passCanonical configs options spec of
                                       Inl err \<Rightarrow> Inl err
                                     | Inr result' \<Rightarrow>
                                         Inr (ctx\<lparr>HostArg := canonical\<rparr>, result'))
                                  else Inr (ctx, result))) of
                     Inl err \<Rightarrow> Inl err
                   | Inr (ctx', result') \<Rightarrow>
                       if finalPass options then
                         resolvePass os ctx' passFinal configs options spec
                       else Inr result')))"

section \<open>Pattern list negation\<close>





















text \<open>
  The words of the spec. A pattern is compiled by dropping one leading \<^verbatim>\<open>!\<close>
  (\<open>dropBang\<close>) and reading \<^verbatim>\<open>*\<close> as any run of characters, \<^verbatim>\<open>?\<close> as at most one
  character and every other character as itself (\<open>globMatch\<close>). A fragment of a pattern
  list is negated when it starts with \<^verbatim>\<open>!\<close>; its pattern is the rest, lowercased when
  the match is case-insensitive (\<open>fragGlob\<close>); an empty pattern matches nothing.
\<close>

definition dropBang :: "string \<Rightarrow> string" where
  "dropBang g = (if take 1 g = ''!'' then drop 1 g else g)"


definition fragNegated :: "string \<Rightarrow> bool" where
  "fragNegated p = (take 1 p = ''!'')"

definition fragGlob :: "bool \<Rightarrow> string \<Rightarrow> string" where
  "fragGlob ci p = (if ci then ToLower (dropBang p) else dropBang p)"





lemma HasPrefix_bang: "HasPrefix part ''!'' = fragNegated part"
  by (simp add: HasPrefix_def fragNegated_def)

lemma part_pattern:
  "(if ci then ToLower (if HasPrefix part ''!'' then TrimPrefix part ''!'' else part)
    else (if HasPrefix part ''!'' then TrimPrefix part ''!'' else part)) = fragGlob ci part"
  by (auto simp: fragGlob_def dropBang_def HasPrefix_def TrimPrefix_def)







text \<open>A fragment that is not valid UTF-8 ends the match with the error of
  \<^verbatim>\<open>regexp.Compile\<close>, although a positive fragment has matched.\<close>

lemma invalid_pattern_example:
  "matchPatternList ''a'' [CHR ''a'', CHR '','', CHR 0xFF] False = (False, Some ErrInvalidUTF8)"
  by (simp add: matchPatternList_def splitPatternList_def FieldsFunc_def HasPrefix_def
      matchPattern_def NewPattern_def regexpCompile_def quoteByte_def special_def
      specialBytes_def byte_def runeError_def MatchString_def Let_def)





section \<open>Result accessors\<close>

lemma GetAll_nil: "GetAll st None key = Inr (None, st)"
  by (simp add: GetAll_def)

lemma Get_nil: "Get st None key = Inr ([], st)"
  by (simp add: Get_def)

lemma GetAll_cases:
  "GetAll st (Some r) key =
     (case valuesMap r (ToLower key) of
        None \<Rightarrow> Inr (None, st)
      | Some h \<Rightarrow> if len h = 0 then Inr (None, st)
                  else Inr (Some (fst (makeCopy st h)), snd (makeCopy st h)))"
  by (simp add: GetAll_def deref_def lenSlice_def Let_def split: option.splits prod.splits)

lemma GetAll_no_panic: "\<exists>res. GetAll st r key = Inr res"
  by (cases r) (simp_all add: GetAll_nil GetAll_cases split: option.splits)

lemma Get_no_panic: "\<exists>res. Get st r key = Inr res"
proof (cases r)
  case None
  then show ?thesis by (simp add: Get_nil)
next
  case (Some res)
  show ?thesis
    unfolding Some Get_def GetAll_cases
    by (simp add: lenSlice_def indexSlice_def makeCopy_def Let_def split: option.splits)
qed

lemma makeCopy_fresh:
  assumes "makeCopy st h = (out, st')"
  shows "base out = nextFree st" and "len out = len h"
    and "readSlice st' out = readSlice st h @ replicate (len h - length (readSlice st h)) []"
  using assms by (auto simp: makeCopy_def Let_def readSlice_def)

lemma write_other_array:
  assumes "writeSlice st' out i v = Inr st''" and "base h \<noteq> base out"
  shows "readSlice st'' h = readSlice st' h"
  using assms by (auto simp: writeSlice_def readSlice_def split: if_splits)

lemma makeCopy_keeps:
  assumes "makeCopy st h = (out, st')" and "base g < nextFree st"
  shows "readSlice st' g = readSlice st g"
  using assms by (auto simp: makeCopy_def Let_def readSlice_def)

text \<open>
  C10. On a nil Result, \<open>Get\<close> returns the empty string and \<open>GetAll\<close> the nil (empty)
  slice, and the store is untouched; on any Result neither call panics; and the slice
  \<open>GetAll\<close> returns for a Result whose slices are allocated is a copy in a new array:
  it reads as the stored values, and writing to any of its elements leaves every slice
  of the Result as it was.
\<close>

theorem result_accessors:
  "Get st None key = Inr ([], st) \<and> GetAll st None key = Inr (None, st)
   \<and> (\<exists>res. Get st r key = Inr res) \<and> (\<exists>res. GetAll st r key = Inr res)
   \<and> (allocated st res \<longrightarrow> GetAll st (Some res) key = Inr (Some out, st') \<longrightarrow>
        (\<forall>h. valuesMap res (ToLower key) = Some h \<longrightarrow> readSlice st' out = readSlice st h)
      \<and> (\<forall>i v st'' k g. writeSlice st' out i v = Inr st'' \<longrightarrow> valuesMap res k = Some g \<longrightarrow>
            readSlice st'' g = readSlice st g))"
proof -
  have copy: "allocated st res \<longrightarrow> GetAll st (Some res) key = Inr (Some out, st') \<longrightarrow>
        (\<forall>h. valuesMap res (ToLower key) = Some h \<longrightarrow> readSlice st' out = readSlice st h)
      \<and> (\<forall>i v st'' k g. writeSlice st' out i v = Inr st'' \<longrightarrow> valuesMap res k = Some g \<longrightarrow>
            readSlice st'' g = readSlice st g)"
  proof (intro impI)
    assume al: "allocated st res" and ga: "GetAll st (Some res) key = Inr (Some out, st')"
    from ga obtain h where h: "valuesMap res (ToLower key) = Some h" "len h \<noteq> 0"
      and mc: "makeCopy st h = (out, st')"
      by (auto simp: GetAll_cases split: option.splits if_splits intro: prod_eqI)
    have inb: "len h \<le> length (cells st (base h))"
      using al h(1) by (simp add: allocated_def)
    have same: "readSlice st' out = readSlice st h"
      using makeCopy_fresh(3) [OF mc] inb by (simp add: readSlice_def)
    have frame: "readSlice st'' g = readSlice st g"
      if w: "writeSlice st' out i v = Inr st''" and g: "valuesMap res k = Some g"
      for i v st'' k g
    proof -
      have lt: "base g < nextFree st" using al g by (simp add: allocated_def)
      then have "base g \<noteq> base out" using makeCopy_fresh(1) [OF mc] by simp
      then have "readSlice st'' g = readSlice st' g" using w by (rule write_other_array [rotated])
      then show ?thesis using makeCopy_keeps [OF mc lt] by simp
    qed
    show "(\<forall>h. valuesMap res (ToLower key) = Some h \<longrightarrow> readSlice st' out = readSlice st h)
      \<and> (\<forall>i v st'' k g. writeSlice st' out i v = Inr st'' \<longrightarrow> valuesMap res k = Some g \<longrightarrow>
            readSlice st'' g = readSlice st g)"
      using same h(1) frame by auto
  qed
  show ?thesis
    using copy Get_nil GetAll_nil Get_no_panic GetAll_no_panic by blast
qed

theorem result_accessors_witness:
  "GetAll \<lparr>cells = (\<lambda>a. if a = 0 then [''22''] else []), nextFree = 1\<rparr>
         (Some \<lparr>valuesMap = [''port'' \<mapsto> \<lparr>base = 0, len = 1\<rparr>]\<rparr>) ''Port''
       = Inr (Some \<lparr>base = 1, len = 1\<rparr>,
              \<lparr>cells = (\<lambda>a. if a = 0 then [''22''] else [])(1 := [''22'']), nextFree = 2\<rparr>)
   \<and> writeSlice
         \<lparr>cells = (\<lambda>a. if a = 0 then [''22''] else [])(1 := [''22'']), nextFree = 2\<rparr>
         \<lparr>base = 1, len = 1\<rparr> 0 ''2222''
       = Inr \<lparr>cells = (\<lambda>a. if a = 0 then [''22''] else [])(1 := [''2222'']), nextFree = 2\<rparr>
   \<and> readSlice
         \<lparr>cells = (\<lambda>a. if a = 0 then [''22''] else [])(1 := [''2222'']), nextFree = 2\<rparr>
         \<lparr>base = 0, len = 1\<rparr> = [''22'']
   \<and> Get \<lparr>cells = (\<lambda>a. if a = 0 then [''22''] else []), nextFree = 1\<rparr> None ''Port''
       = Inr ([], \<lparr>cells = (\<lambda>a. if a = 0 then [''22''] else []), nextFree = 1\<rparr>)"
proof -
  let ?st = "\<lparr>cells = (\<lambda>a. if a = 0 then [''22''] else []), nextFree = 1\<rparr>"
  let ?r = "\<lparr>valuesMap = [''port'' \<mapsto> \<lparr>base = 0, len = 1\<rparr>]\<rparr>"
  let ?g = "\<lparr>base = 0, len = 1\<rparr>"
  let ?out = "\<lparr>base = 1, len = 1\<rparr>"
  let ?st' = "\<lparr>cells = (\<lambda>a. if a = 0 then [''22''] else [])(1 := [''22'']), nextFree = 2\<rparr>"
  let ?st2 = "\<lparr>cells = (\<lambda>a. if a = 0 then [''22''] else [])(1 := [''2222'']), nextFree = 2\<rparr>"
  have low: "ToLower ''Port'' = ''port''"
    by (simp add: ToLower_def lowerChar_def upperLetters_def lowerLetters_def)
  have al: "allocated ?st ?r"
    by (simp add: allocated_def)
  have ga: "GetAll ?st (Some ?r) ''Port'' = Inr (Some ?out, ?st')"
    by (simp add: GetAll_def deref_def lenSlice_def low makeCopy_def readSlice_def Let_def)
  have wr: "writeSlice ?st' ?out 0 ''2222'' = Inr ?st2"
    by (simp add: writeSlice_def)
  have old: "readSlice ?st ?g = [''22'']"
    by (simp add: readSlice_def)
  have key: "valuesMap ?r ''port'' = Some ?g"
    by simp
  have all: "Get ?st None ''Port'' = Inr ([], ?st)
      \<and> (\<forall>i v st'' k g. writeSlice ?st' ?out i v = Inr st'' \<longrightarrow> valuesMap ?r k = Some g \<longrightarrow>
            readSlice st'' g = readSlice ?st g)"
    using result_accessors [of ?st "''Port''" "Some ?r" ?r ?out ?st'] al ga by blast
  then have "readSlice ?st2 ?g = readSlice ?st ?g"
    using wr key by blast
  then show ?thesis using all ga wr old by simp
qed

section \<open>Aliases in the client spec\<close>

lemma ToLower_Nil_iff: "ToLower s = [] \<longleftrightarrow> s = []"
  by (simp add: ToLower_def)












text \<open>A small spec table: a canonical keyword and an alias for it, the alias with a
  given status.\<close>

definition exIdentityFile :: specDirective where
  "exIdentityFile = \<lparr>Name = ''identityfile'', Canonical = ''identityfile'',
     Status = ''supported'', Type = ''string'', Multi = True,
     DefaultValue = JArray [Some ''~/.ssh/id_rsa'', Some ''~/.ssh/id_ed25519''],
     AliasFor = [], Enum = [], Tokens = [], TokensAll = False, Env = False,
     EnvUnixPaths = False\<rparr>"

definition exIdentityFile2 :: "string \<Rightarrow> specDirective" where
  "exIdentityFile2 status = \<lparr>Name = ''identityfile2'', Canonical = ''identityfile'',
     Status = status, Type = ''string'', Multi = True, DefaultValue = JNull,
     AliasFor = ''identityfile'', Enum = [], Tokens = [], TokensAll = False, Env = False,
     EnvUnixPaths = False\<rparr>"

definition exSpec :: "string \<Rightarrow> clientSpec" where
  "exSpec status = \<lparr>OpenSSHVersion = ''OpenSSH_10.2'',
     Directives = [exIdentityFile, exIdentityFile2 status], MatchExecTokens = []\<rparr>"










section \<open>Match criteria with failing callbacks\<close>

lemma evalCriterion_localnetwork:
  "critName c = ''localnetwork'' \<Longrightarrow>
   evalCriterion os c ctx pass options spec state =
     (case LocalNetwork ctx of
        None \<Rightarrow> if strict options then (False, Some ErrLocalNetworkCallbackMissing)
                else (False, None)
      | Some cb \<Rightarrow>
          (case cb (critValue c) of
             (ok, Some err) \<Rightarrow> if strict options then (False, Some err) else (False, None)
           | (ok, None) \<Rightarrow> (applyNegation ok (critNegate c), None)))"
  by (simp add: evalCriterion_def Let_def)

lemma evalCriterion_exec:
  "critName c = ''exec'' \<Longrightarrow>
   evalCriterion os c ctx pass options spec state =
     (case Exec ctx of
        None \<Rightarrow> if strict options then (False, Some ErrExecCallbackMissing)
                else (False, None)
      | Some cb \<Rightarrow>
          (case expandMatchExec os (critValue c) ctx state spec of
             (cmd, Some err) \<Rightarrow> if strict options then (False, Some err) else (False, None)
           | (cmd, None) \<Rightarrow>
               (case cb cmd of
                  (ok, Some err) \<Rightarrow>
                    if strict options then (False, Some err) else (False, None)
                | (ok, None) \<Rightarrow> (applyNegation ok (critNegate c), None))))"
  by (simp add: evalCriterion_def Let_def)

lemma evalCriteria_stays_false:
  "fst (evalCriteria os cs ctx pass options spec state False) = False"
proof (induction cs)
  case Nil
  show ?case by simp
next
  case (Cons a cs)
  obtain m e where r: "evalCriterion os a ctx pass options spec state = (m, e)"
    by (cases "evalCriterion os a ctx pass options spec state")
  show ?case using Cons.IH r by (cases e) simp_all
qed

lemma evalCriteria_false:
  "c \<in> set cs \<Longrightarrow> evalCriterion os c ctx pass options spec state = (False, None) \<Longrightarrow>
   fst (evalCriteria os cs ctx pass options spec state result) = False"
proof (induction cs arbitrary: result)
  case Nil
  then show ?case by simp
next
  case (Cons a cs)
  obtain m e where r: "evalCriterion os a ctx pass options spec state = (m, e)"
    by (cases "evalCriterion os a ctx pass options spec state")
  show ?case
  proof (cases "a = c")
    case True
    then show ?thesis
      using Cons.prems(2) evalCriteria_stays_false [of os cs ctx pass options spec state]
      by (cases result) simp_all
  next
    case False
    then have "c \<in> set cs" using Cons.prems(1) by simp
    then have ih: "fst (evalCriteria os cs ctx pass options spec state res) = False" for res
      using Cons.IH Cons.prems(2) by blast
    show ?thesis using ih r by (cases e) simp_all
  qed
qed


text \<open>An environment, a context and options for the examples.\<close>

definition exOs :: osEnv where
  "exOs = \<lparr>osHostname = ''client.example.org'', currentUserName = ''alice'',
     currentUID = ''1000'', currentHomeDir = ''/home/alice'', sha1Hex = (\<lambda>s. [])\<rparr>"

definition exCtx :: "string \<Rightarrow> Context" where
  "exCtx host = \<lparr>HostArg = host, OriginalHost = [], LocalUser = ''alice'', Version = [],
     SessionType = [], Command = [], Exec = None, LocalNetwork = None\<rparr>"

definition exOptions :: "bool \<Rightarrow> resolveOptions" where
  "exOptions s = \<lparr>strict = s, finalPass = False, canonicalize = None\<rparr>"

text \<open>
  C9. Outside strict mode, an \<open>exec\<close> or \<open>localnetwork\<close> criterion whose callback is
  missing, or whose callback (or token expansion) returns an error, evaluates to false
  with no error, whether it is negated or not: the negation is not applied on these
  paths. A Match whose criteria hold such a criterion therefore never evaluates to true,
  so it cannot make its block active.
\<close>

theorem negated_callback_failure:
  assumes "\<not> strict options"
    and "critName c = ''localnetwork'' \<and>
           (LocalNetwork ctx = None \<or>
            (\<exists>cb ok err. LocalNetwork ctx = Some cb \<and> cb (critValue c) = (ok, Some err)))
         \<or> critName c = ''exec'' \<and>
           (Exec ctx = None \<or>
            (\<exists>cb cmd ok err. Exec ctx = Some cb \<and>
               (expandMatchExec os (critValue c) ctx state spec = (cmd, Some err) \<or>
                expandMatchExec os (critValue c) ctx state spec = (cmd, None) \<and>
                cb cmd = (ok, Some err))))"
  shows "evalCriterion os c ctx pass options spec state = (False, None)
       \<and> (c \<in> set criteria \<longrightarrow>
            \<not> fst (evalMatch os criteria ctx pass options spec state))"
proof -
  have ev: "evalCriterion os c ctx pass options spec state = (False, None)"
    using assms(2)
  proof (elim disjE conjE exE)
    assume "critName c = ''localnetwork''" "LocalNetwork ctx = None"
    then show ?thesis using assms(1) by (simp add: evalCriterion_localnetwork)
  next
    fix cb ok err
    assume "critName c = ''localnetwork''" "LocalNetwork ctx = Some cb"
      "cb (critValue c) = (ok, Some err)"
    then show ?thesis using assms(1) by (simp add: evalCriterion_localnetwork)
  next
    assume "critName c = ''exec''" "Exec ctx = None"
    then show ?thesis using assms(1) by (simp add: evalCriterion_exec)
  next
    fix cb cmd ok err
    assume "critName c = ''exec''" "Exec ctx = Some cb"
      "expandMatchExec os (critValue c) ctx state spec = (cmd, Some err)"
    then show ?thesis using assms(1) by (simp add: evalCriterion_exec)
  next
    fix cb cmd ok err
    assume "critName c = ''exec''" "Exec ctx = Some cb"
      "expandMatchExec os (critValue c) ctx state spec = (cmd, None)"
      "cb cmd = (ok, Some err)"
    then show ?thesis using assms(1) by (simp add: evalCriterion_exec)
  qed
  have "\<not> fst (evalMatch os criteria ctx pass options spec state)" if "c \<in> set criteria"
  proof (cases "validateMatchAll criteria")
    case None
    then show ?thesis
      using evalCriteria_false [OF that ev, of True] that
      by (auto simp: evalMatch_def)
  next
    case (Some e)
    then show ?thesis by (simp add: evalMatch_def)
  qed
  then show ?thesis using ev by blast
qed

theorem negated_callback_failure_witness:
  "evalCriterion exOs \<lparr>critName = ''exec'', critValue = ''true'', critNegate = True\<rparr>
      (exCtx ''example.com'') passInitial (exOptions False) (exSpec ''supported'') newState
     = (False, None)
   \<and> \<not> fst (evalMatch exOs
        [\<lparr>critName = ''host'', critValue = ''*'', critNegate = False\<rparr>,
         \<lparr>critName = ''exec'', critValue = ''true'', critNegate = True\<rparr>]
        (exCtx ''example.com'') passInitial (exOptions False) (exSpec ''supported'') newState)"
proof -
  have ns: "\<not> strict (exOptions False)" by (simp add: exOptions_def)
  have f: "critName \<lparr>critName = ''exec'', critValue = ''true'', critNegate = True\<rparr> = ''exec''
      \<and> Exec (exCtx ''example.com'') = None"
    by (simp add: exCtx_def)
  show ?thesis
    using negated_callback_failure [OF ns, of
        "\<lparr>critName = ''exec'', critValue = ''true'', critNegate = True\<rparr>"
        "exCtx ''example.com''" exOs newState "exSpec ''supported''" passInitial
        "[\<lparr>critName = ''host'', critValue = ''*'', critNegate = False\<rparr>,
          \<lparr>critName = ''exec'', critValue = ''true'', critNegate = True\<rparr>]"] f
    by simp
qed

section \<open>Match all combined with other criteria\<close>

text \<open>
  The rule of the spec for \<^verbatim>\<open>all\<close>: an \<^verbatim>\<open>all\<close> at index \<open>i\<close> is allowed when it is the
  only criterion, or the second of exactly two whose first is \<^verbatim>\<open>canonical\<close> or
  \<^verbatim>\<open>final\<close>; the criteria misuse \<^verbatim>\<open>all\<close> when some \<^verbatim>\<open>all\<close> is not allowed.
\<close>

definition allAllowedAt :: "matchCriterion list \<Rightarrow> nat \<Rightarrow> bool" where
  "allAllowedAt criteria i =
     (length criteria = 1 \<or>
      (length criteria = 2 \<and> i = 1 \<and>
       (critName (criteria ! 0) = ''canonical'' \<or> critName (criteria ! 0) = ''final'')))"

definition allMisused :: "matchCriterion list \<Rightarrow> bool" where
  "allMisused criteria =
     (\<exists>i < length criteria. critName (criteria ! i) = ''all'' \<and> \<not> allAllowedAt criteria i)"

lemma validateFrom_char:
  assumes "\<forall>c \<in> set pre. critName c \<noteq> ''all''"
  shows "validateFrom (pre @ cs) (length pre) cs =
           (if allMisused (pre @ cs) then Some ErrMatchAllCombined else None)"
  using assms
proof (induction cs arbitrary: pre)
  case Nil
  have "\<not> allMisused pre"
    using Nil by (auto simp: allMisused_def)
  then show ?case by simp
next
  case (Cons c cs)
  show ?case
  proof (cases "critName c = ''all''")
    case False
    have "validateFrom ((pre @ [c]) @ cs) (length (pre @ [c])) cs =
           (if allMisused ((pre @ [c]) @ cs) then Some ErrMatchAllCombined else None)"
      by (rule Cons.IH) (use Cons.prems False in auto)
    then show ?thesis using False by simp
  next
    case True
    let ?L = "pre @ c # cs"
    have at: "?L ! length pre = c" by simp
    have before: "critName (?L ! j) \<noteq> ''all''" if "j < length pre" for j
      using Cons.prems that by (simp add: nth_append)
    show ?thesis
    proof (cases "allAllowedAt ?L (length pre)")
      case True
      have "\<not> allMisused ?L"
      proof
        assume "allMisused ?L"
        then obtain j where j: "j < length ?L" "critName (?L ! j) = ''all''"
            "\<not> allAllowedAt ?L j"
          by (auto simp: allMisused_def)
        from True j(3) have two: "length ?L = 2" "length pre = 1"
            "critName (?L ! 0) = ''canonical'' \<or> critName (?L ! 0) = ''final''"
          by (auto simp: allAllowedAt_def)
        from j(1) two(1) have "j = 0 \<or> j = 1" by auto
        then show False
        proof
          assume "j = 0" then show False using j(2) two(3) by auto
        next
          assume "j = 1" then show False using j(3) True two(2) by simp
        qed
      qed
      then show ?thesis using True \<open>critName c = ''all''\<close>
        by (auto simp: allAllowedAt_def)
    next
      case False
      have "allMisused ?L"
        unfolding allMisused_def
        using False at \<open>critName c = ''all''\<close> by (intro exI [of _ "length pre"]) simp
      then show ?thesis using False \<open>critName c = ''all''\<close>
        by (auto simp: allAllowedAt_def)
    qed
  qed
qed

lemma validateMatchAll_char:
  "validateMatchAll criteria = (if allMisused criteria then Some ErrMatchAllCombined else None)"
  using validateFrom_char [of "[]" criteria] by (simp add: validateMatchAll_def)

lemma matchActive_misused:
  assumes "parseMatchCriteria (Criteria b) = Inr criteria" and "allMisused criteria"
  shows "matchActive os b ctx pass options spec state False = Inl ErrMatchAllCombined"
proof -
  have ne: "criteria \<noteq> []" using assms(2) by (auto simp: allMisused_def)
  have "evalMatch os criteria ctx pass options spec state = (False, Some ErrMatchAllCombined)"
    using ne assms(2) by (simp add: evalMatch_def validateMatchAll_char)
  then show ?thesis using assms(1) by (simp add: matchActive_def)
qed

lemma resolveBlocks_fails:
  assumes "MatchBlock b \<in> set blocks"
    and "\<And>st. matchActive os b ctx pass options spec st neverMatch = Inl err"
  shows "\<exists>e. resolveBlocks os blocks ctx pass options spec state neverMatch = Inl e"
  using assms(1)
proof (induction blocks arbitrary: state)
  case Nil
  then show ?case by simp
next
  case (Cons a blocks)
  show ?case
  proof (cases "a = MatchBlock b")
    case True
    then show ?thesis using assms(2) by simp
  next
    case False
    then have mem: "MatchBlock b \<in> set blocks" using Cons.prems by simp
    show ?thesis
    proof (cases a)
      case (HostBlock h)
      then show ?thesis using Cons.IH [OF mem] by (simp split: sum.splits)
    next
      case (MatchBlock m)
      then show ?thesis using Cons.IH [OF mem] by (simp split: sum.splits)
    qed
  qed
qed

lemma resolveAll_fails:
  assumes "Some cfg \<in> set configs"
    and "\<And>st. \<exists>e. resolveConfig os cfg ctx pass options spec st False = Inl e"
  shows "\<exists>e. resolveAll os configs ctx pass options spec state = Inl e"
  using assms(1)
proof (induction configs arbitrary: state)
  case Nil
  then show ?case by simp
next
  case (Cons a configs)
  show ?case
  proof (cases "a = Some cfg")
    case True
    obtain e where "resolveConfig os cfg ctx pass options spec state False = Inl e"
      using assms(2) by blast
    then show ?thesis using True by simp
  next
    case False
    then have "Some cfg \<in> set configs" using Cons.prems by simp
    then show ?thesis using Cons.IH by (cases a) (auto split: sum.splits)
  qed
qed

lemma resolveConfigs_fails:
  assumes "\<And>ctx' st. \<exists>e. resolveAll os configs ctx' passInitial (applyOptions opts) spec st = Inl e"
  shows "\<exists>e. resolveConfigs os (Inr spec) ctx opts configs = Inl e"
proof -
  obtain e where "resolveAll os configs (normalizeContext os ctx spec) passInitial
      (applyOptions opts) spec newState = Inl e"
    using assms by blast
  then have "resolvePass os (normalizeContext os ctx spec) passInitial configs
      (applyOptions opts) spec = Inl e"
    by (simp add: resolvePass_def)
  then show ?thesis by (simp add: resolveConfigs_def Let_def)
qed


text \<open>A document with one Match block that combines \<^verbatim>\<open>all\<close> with \<^verbatim>\<open>host\<close>.\<close>

definition exPos :: Position where
  "exPos = \<lparr>Line = 1, Col = 1\<rparr>"

definition exKV :: "string \<Rightarrow> string \<Rightarrow> Node" where
  "exKV k v = KVNode \<lparr>Key = k, Value = v, spaceAfterValue = [], Comment = [],
     hasEquals = False, leadingSpace = 2, position = exPos\<rparr>"

definition exMatch :: "string \<Rightarrow> Node list \<Rightarrow> Match" where
  "exMatch criteria nodes = Match criteria nodes [] [] False 0 exPos"

definition exMatchAllConfig :: Config where
  "exMatchAllConfig =
     Config [] [MatchBlock (exMatch ''all host foo'' [exKV ''User'' ''dev''])] 0 exPos True"

lemma exMatchAll_parse:
  "parseMatchCriteria ''all host foo'' =
     Inr [\<lparr>critName = ''all'', critValue = [], critNegate = False\<rparr>,
          \<lparr>critName = ''host'', critValue = ''foo'', critNegate = False\<rparr>]"
  by (simp add: parseMatchCriteria_def tokenizeMatchCriteria_def flush_def HasPrefix_def
      ToLower_def lowerChar_def upperLetters_def lowerLetters_def Let_def)

lemma exMatchAll_misused:
  "allMisused [\<lparr>critName = ''all'', critValue = [], critNegate = False\<rparr>,
          \<lparr>critName = ''host'', critValue = ''foo'', critNegate = False\<rparr>]"
  unfolding allMisused_def by (intro exI [of _ 0]) (simp add: allAllowedAt_def)

text \<open>
  C5 as stated fails outside strict mode: the error of \<open>evalMatch\<close> is returned
  whatever the mode, so Resolve fails instead of treating the block as inactive.
\<close>

theorem match_all_misuse_counterexample:
  "\<not> strict (applyOptions [])
   \<and> resolveConfigs exOs (Inr (exSpec ''supported'')) (exCtx ''foo'') []
        [Some exMatchAllConfig] = Inl ErrMatchAllCombined"
proof -
  have c: "Criteria (exMatch ''all host foo'' [exKV ''User'' ''dev'']) = ''all host foo''"
    by (simp add: exMatch_def)
  have ma: "matchActive exOs (exMatch ''all host foo'' [exKV ''User'' ''dev'']) ctx pass
      options spec st False = Inl ErrMatchAllCombined" for ctx pass options spec st
    by (rule matchActive_misused [OF _ exMatchAll_misused]) (simp add: c exMatchAll_parse)
  have rc: "resolveConfig exOs exMatchAllConfig ctx pass options spec st False
      = Inl ErrMatchAllCombined" for ctx pass options spec st
    by (simp add: exMatchAllConfig_def effectiveBlocks_def ma)
  have h: "HostArg (exCtx ''foo'') \<noteq> []" by (simp add: exCtx_def)
  show ?thesis
    using h
    by (simp add: applyOptions_def resolveConfigs_def resolvePass_def rc Let_def
        del: resolveConfig.simps)
qed

text \<open>
  C5, amended. A Match block of a resolved document whose criteria parse and misuse
  \<^verbatim>\<open>all\<close> makes Resolve fail, with any options (strict or not): walked with
  \<open>neverMatch\<close> unset, the computation of its activation returns the error
  \<open>ErrMatchAllCombined\<close>. Walked with \<open>neverMatch\<close> set (inside a document included
  from an inactive block) its criteria are not looked at and it is inactive.
\<close>

theorem match_all_misuse:
  assumes "Some cfg \<in> set configs" and "MatchBlock b \<in> set (effectiveBlocks cfg)"
    and "parseMatchCriteria (Criteria b) = Inr criteria" and "allMisused criteria"
  shows "(\<exists>e. resolveConfigs os (Inr spec) ctx opts configs = Inl e)
       \<and> matchActive os b ctx pass options spec state False = Inl ErrMatchAllCombined
       \<and> matchActive os b ctx pass options spec state True = Inr False"
proof -
  have ma: "matchActive os b ctx' pass' options' spec st False = Inl ErrMatchAllCombined"
    for ctx' pass' options' st
    using matchActive_misused [OF assms(3,4)] .
  have rc: "\<exists>e. resolveConfig os cfg ctx' passInitial (applyOptions opts) spec st False = Inl e"
    for ctx' st
    using resolveBlocks_fails [OF assms(2), of os ctx' passInitial "applyOptions opts" spec
        False ErrMatchAllCombined st] ma
    by simp
  have ra: "\<exists>e. resolveAll os configs ctx' passInitial (applyOptions opts) spec st = Inl e"
    for ctx' st
    using resolveAll_fails [OF assms(1), of os ctx' passInitial "applyOptions opts" spec st] rc
    by blast
  have "\<exists>e. resolveConfigs os (Inr spec) ctx opts configs = Inl e"
    using resolveConfigs_fails [of os configs opts spec ctx] ra by blast
  moreover have "matchActive os b ctx pass options spec state True = Inr False"
    by (simp add: matchActive_def)
  ultimately show ?thesis using ma by blast
qed

theorem match_all_misuse_witness:
  "isl (resolveConfigs exOs (Inr (exSpec ''supported'')) (exCtx ''foo'') [Some Strict]
        [Some exMatchAllConfig])
   \<and> matchActive exOs (exMatch ''all host foo'' [exKV ''User'' ''dev'']) (exCtx ''foo'')
        passInitial (exOptions False) (exSpec ''supported'') newState False
       = Inl ErrMatchAllCombined
   \<and> matchActive exOs (exMatch ''all host foo'' [exKV ''User'' ''dev'']) (exCtx ''foo'')
        passInitial (exOptions False) (exSpec ''supported'') newState True = Inr False"
proof -
  have m: "Some exMatchAllConfig \<in> set [Some exMatchAllConfig]" by simp
  have b: "MatchBlock (exMatch ''all host foo'' [exKV ''User'' ''dev''])
      \<in> set (effectiveBlocks exMatchAllConfig)"
    by (simp add: exMatchAllConfig_def effectiveBlocks_def)
  have p: "parseMatchCriteria (Criteria (exMatch ''all host foo'' [exKV ''User'' ''dev'']))
      = Inr [\<lparr>critName = ''all'', critValue = [], critNegate = False\<rparr>,
          \<lparr>critName = ''host'', critValue = ''foo'', critNegate = False\<rparr>]"
    by (simp add: exMatch_def exMatchAll_parse)
  show ?thesis
    using match_all_misuse [OF m b p exMatchAll_misused, where os = exOs
        and spec = "exSpec ''supported''" and ctx = "exCtx ''foo''" and opts = "[Some Strict]"
        and pass = passInitial and options = "exOptions False" and state = newState]
    by auto
qed


end
